theory Spec2Isabelle
  imports Complex_Main "HOL-Library.Word"
begin

section \<open>The email summarizer worker (src/worker.ts)\<close>

text \<open>
  The worker has four handlers (\<open>email\<close>, \<open>generateSummary\<close>, \<open>fetch\<close>, \<open>queue\<close>) that
  talk to four bound services: the queue, the D1 database, the inference service and the
  vector index. A handler is modelled as a function from the state of these services
  (\<open>world\<close>) to a result and the new state. A rejected promise or a thrown exception is
  the result \<open>Inl e\<close>; the state that comes with it holds what had happened before the
  throw. How a service answers a call is not code of the worker: it is read from \<open>env\<close>,
  a record of functions of the current state and the arguments, so a theorem for every
  \<open>env\<close> holds however the services behave.
\<close>

subsection \<open>JavaScript values\<close>

datatype js_error = SyntaxError string | TypeError string | ServiceError string

text \<open>\<open>err.message\<close>\<close>

fun error_message :: "js_error \<Rightarrow> string" where
  "error_message (SyntaxError s) = s"
| "error_message (TypeError s) = s"
| "error_message (ServiceError s) = s"

text \<open>
  What \<open>JSON.parse\<close> can return. An object is the list of its own properties, in insertion
  order, each key once. The handlers never look into a number.
\<close>

datatype json =
    JNull
  | JBool bool
  | JNum real
  | JStr string
  | JArr "json list"
  | JObj "(string \<times> json) list"

text \<open>A value that may be \<open>undefined\<close> (\<open>None\<close>).\<close>

type_synonym js_value = "json option"

text \<open>
  A string as \<open>JSON.parse\<close> tells strings apart: it is the text of one JSON value, or it is
  not JSON and \<open>JSON.parse\<close> throws a SyntaxError.
\<close>

datatype json_text = Encodes json | NotJSON

definition JSON_parse :: "json_text \<Rightarrow> js_error + json" where
  "JSON_parse s = (case s of
       Encodes v \<Rightarrow> Inr v
     | NotJSON \<Rightarrow> Inl (SyntaxError ''Unexpected token''))"

text \<open>
  \<open>JSON.stringify\<close> of an object literal, given as its properties in order: a property
  whose value is \<open>undefined\<close> is left out.
\<close>

definition JSON_stringify :: "(string \<times> js_value) list \<Rightarrow> json_text" where
  "JSON_stringify props =
     Encodes (JObj (List.map_filter (\<lambda>(k, v). map_option (Pair k) v) props))"

text \<open>
  \<open>const { body, type } = v\<close> for a parsed \<open>v\<close>: destructuring \<open>null\<close> throws a TypeError;
  an object gives its two properties, \<open>undefined\<close> where it has none; a boolean, number,
  string or array has neither property.
\<close>

fun destructure :: "json \<Rightarrow> js_error + (js_value \<times> js_value)" where
  "destructure JNull = Inl (TypeError ''Cannot destructure property of null'')"
| "destructure (JObj ps) = Inr (map_of ps ''body'', map_of ps ''type'')"
| "destructure v = Inr (None, None)"

text \<open>
  \<open>a || b\<close> on values that are a string or \<open>undefined\<close>: \<open>a\<close> when it is truthy, that is a
  non-empty string, and \<open>b\<close> otherwise.
\<close>

definition truthy :: "string option \<Rightarrow> bool" where
  "truthy a = (case a of None \<Rightarrow> False | Some s \<Rightarrow> s \<noteq> [])"

definition or_js :: "string option \<Rightarrow> string option \<Rightarrow> string option" where
  "or_js a b = (if truthy a then a else b)"

text \<open>\<open>String(n)\<close> for an integer \<open>n\<close>: its decimal digits, with a minus sign below zero.\<close>

fun digits :: "nat \<Rightarrow> string" where
  "digits n =
     (if n < 10 then [''0123456789'' ! n]
      else digits (n div 10) @ [''0123456789'' ! (n mod 10)])"

declare digits.simps [simp del]

definition String_js :: "int \<Rightarrow> string" where
  "String_js i = (if i < 0 then CHR ''-'' # digits (nat (- i)) else digits (nat i))"

text \<open>
  \<open>xs.join(sep)\<close> on an array of strings and nulls: a null element contributes the empty
  string.
\<close>

fun join_js :: "string \<Rightarrow> string option list \<Rightarrow> string" where
  "join_js sep [] = []"
| "join_js sep [x] = (case x of None \<Rightarrow> [] | Some s \<Rightarrow> s)"
| "join_js sep (x # y # ys) =
     (case x of None \<Rightarrow> [] | Some s \<Rightarrow> s) @ sep @ join_js sep (y # ys)"

subsection \<open>The bound services\<close>

text \<open>
  Modelled from the spec: the schema of the \<open>messages\<close> table is not under src/. The spec
  gives it the columns \<open>id\<close> (a unique key generated by the store), \<open>message\<close> (text) and
  \<open>created_at\<close> (a timestamp, by default the insertion time). A timestamp is a number of
  milliseconds since the epoch, a text that may be NULL is a \<open>string option\<close>.
\<close>

record row =
  row_id :: int
  message :: "string option"
  created_at :: int

type_synonym vector = "real list"

record turn =
  role :: string
  content :: string

text \<open>What \<open>console.log\<close> is given: the fixed text and the interpolated value.\<close>

datatype log_entry =
    Unknown_message_type js_value
  | Failed_to_insert_message js_value

text \<open>The calls made to the services, whether they succeed or not.\<close>

datatype call =
    QueueSend json_text
  | DbInsert js_value
  | DbSelectAll
  | DbSelectAfter int
  | AiEmbed string "js_value list"
  | AiChat string "turn list"
  | IndexUpsert string "vector option"

record world =
  DB :: "row list"
  VECTORIZE_INDEX :: "(string \<times> vector option) list"
  QUEUE :: "json_text list"
  console :: "log_entry list"
  calls :: "call list"
  clock :: int

text \<open>
  The answer of the store to the INSERT: the promise is rejected, or the result says
  \<open>success: false\<close>, or the row is stored with the given text in its \<open>message\<close> column.
\<close>

datatype insert_answer = InsertThrows js_error | InsertFails | InsertStores "string option"

text \<open>
  What the handler reads of the object \<open>Parser.parse\<close> returns: the plain-text body and the
  html body, each a string or \<open>undefined\<close>.
\<close>

record parsed_email =
  text' :: "string option"
  html :: "string option"

text \<open>
  How the platform and the services answer. \<open>decode\<close> is \<open>TextDecoder("utf-8").decode\<close> on
  one chunk and \<open>PostalMime_parse\<close> the parser of the postal-mime package. The other
  fields give the answer of a service to a call made in a given state: the exception it
  throws, if any, and otherwise what it returns.
\<close>

record env =
  decode :: "8 word list \<Rightarrow> string"
  PostalMime_parse :: "string \<Rightarrow> js_error + parsed_email"
  QUEUE_send :: "world \<Rightarrow> json_text \<Rightarrow> js_error option"
  DB_insert :: "world \<Rightarrow> js_value \<Rightarrow> insert_answer"
  DB_select :: "world \<Rightarrow> call \<Rightarrow> js_error option"
  AI_embed :: "world \<Rightarrow> js_value list \<Rightarrow> js_error + vector list"
  AI_chat :: "world \<Rightarrow> turn list \<Rightarrow> js_error + string"
  INDEX_upsert :: "world \<Rightarrow> string \<Rightarrow> vector option \<Rightarrow> js_error option"

definition console_log :: "log_entry \<Rightarrow> world \<Rightarrow> world" where
  "console_log l w = w\<lparr>console := console w @ [l]\<rparr>"

definition called :: "call \<Rightarrow> world \<Rightarrow> world" where
  "called c w = w\<lparr>calls := calls w @ [c]\<rparr>"

text \<open>\<open>env.QUEUE.send(s)\<close>: the queue takes the string unless the call fails.\<close>

definition queue_send :: "env \<Rightarrow> world \<Rightarrow> json_text \<Rightarrow> (js_error + unit) \<times> world" where
  "queue_send env w s =
     (let w1 = called (QueueSend s) w in
      case QUEUE_send env w s of
        Some e \<Rightarrow> (Inl e, w1)
      | None \<Rightarrow> (Inr (), w1\<lparr>QUEUE := QUEUE w1 @ [s]\<rparr>))"

text \<open>
  What the worker reads of the result of a D1 statement: \<open>success\<close>, and in \<open>results\<close> the
  \<open>id\<close> of each returned row.
\<close>

record d1_result =
  success :: bool
  results :: "int list"

text \<open>
  Modelled from the spec: how the store generates the key is not under src/. The spec
  wants a unique key generated by the store; a new row gets the key after the largest
  one in the table.
\<close>

definition next_id :: "row list \<Rightarrow> int" where
  "next_id rs = fold max (map row_id rs) 0 + 1"

text \<open>
  Modelled from the spec: the store's insert-returning-id is not under src/. The
  statement is \<open>INSERT INTO messages (message) VALUES (?) RETURNING id\<close>, bound to \<open>v\<close> and
  run. A stored row gets its key and the insertion time, and the result returns the key.
\<close>

definition db_insert :: "env \<Rightarrow> world \<Rightarrow> js_value \<Rightarrow> (js_error + d1_result) \<times> world" where
  "db_insert env w v =
     (let w1 = called (DbInsert v) w in
      case DB_insert env w v of
        InsertThrows e \<Rightarrow> (Inl e, w1)
      | InsertFails \<Rightarrow> (Inr \<lparr>success = False, results = []\<rparr>, w1)
      | InsertStores txt \<Rightarrow>
          (let i = next_id (DB w1) in
           (Inr \<lparr>success = True, results = [i]\<rparr>,
            w1\<lparr>DB := DB w1 @ [\<lparr>row_id = i, message = txt, created_at = clock w1\<rparr>]\<rparr>)))"

text \<open>
  Modelled from the spec: the store's select-all is not under src/. \<open>SELECT * FROM
  messages\<close> returns every row of the table, unless the query fails.
\<close>

definition db_select_all :: "env \<Rightarrow> world \<Rightarrow> (js_error + row list) \<times> world" where
  "db_select_all env w =
     (let w1 = called DbSelectAll w in
      case DB_select env w DbSelectAll of
        Some e \<Rightarrow> (Inl e, w1)
      | None \<Rightarrow> (Inr (DB w), w1))"

text \<open>
  Modelled from the spec: the store's select-where-created_at-after is not under src/.
  \<open>SELECT * FROM messages WHERE created_at > t\<close> returns the rows created after the
  instant \<open>t\<close>, unless the query fails.
\<close>

definition db_select_after :: "env \<Rightarrow> world \<Rightarrow> int \<Rightarrow> (js_error + row list) \<times> world" where
  "db_select_after env w t =
     (let w1 = called (DbSelectAfter t) w in
      case DB_select env w (DbSelectAfter t) of
        Some e \<Rightarrow> (Inl e, w1)
      | None \<Rightarrow> (Inr (filter (\<lambda>r. created_at r > t) (DB w)), w1))"

text \<open>\<open>ai.run(model, inputs)\<close> for the embedding model and for the chat model.\<close>

definition ai_embed :: "env \<Rightarrow> world \<Rightarrow> js_value list \<Rightarrow> (js_error + vector list) \<times> world" where
  "ai_embed env w xs = (AI_embed env w xs, called (AiEmbed ''@cf/baai/bge-base-en-v1.5'' xs) w)"

definition ai_chat :: "env \<Rightarrow> world \<Rightarrow> turn list \<Rightarrow> (js_error + string) \<times> world" where
  "ai_chat env w ms = (AI_chat env w ms, called (AiChat ''@cf/meta/llama-2-7b-chat-int8'' ms) w)"

text \<open>\<open>env.VECTORIZE_INDEX.upsert([{ id, values }])\<close>\<close>

definition index_upsert ::
  "env \<Rightarrow> world \<Rightarrow> string \<Rightarrow> vector option \<Rightarrow> (js_error + unit) \<times> world" where
  "index_upsert env w i v =
     (let w1 = called (IndexUpsert i v) w in
      case INDEX_upsert env w i v of
        Some e \<Rightarrow> (Inl e, w1)
      | None \<Rightarrow> (Inr (), w1\<lparr>VECTORIZE_INDEX := VECTORIZE_INDEX w1 @ [(i, v)]\<rparr>))"

subsection \<open>The email handler\<close>

text \<open>
  \<open>message.raw\<close>, as the reads of its reader go: a chunk and the rest, the end of the
  stream, or a read that fails. The raw message has \<open>rawSize\<close> bytes, so the stream ends.
\<close>

datatype readable_stream =
    Chunk "8 word list" readable_stream
  | Done
  | Errored js_error

text \<open>The \<open>while (true)\<close> loop of lines 29-33, with \<open>body\<close> as accumulator.\<close>

fun read_all :: "(8 word list \<Rightarrow> string) \<Rightarrow> readable_stream \<Rightarrow> string \<Rightarrow> js_error + string" where
  "read_all dec Done body = Inr body"
| "read_all dec (Chunk v rest) body = read_all dec rest (body @ dec v)"
| "read_all dec (Errored e) body = Inl e"

text \<open>\<open>parsedEmail.text || parsedEmail.html\<close>\<close>

definition emailBody :: "parsed_email \<Rightarrow> string option" where
  "emailBody parsedEmail = or_js (text' parsedEmail) (html parsedEmail)"

text \<open>\<open>JSON.stringify({ type: 'email', body: emailBody })\<close>\<close>

definition payload :: "string option \<Rightarrow> json_text" where
  "payload b = JSON_stringify [(''type'', Some (JStr ''email'')), (''body'', map_option JStr b)]"

definition email :: "env \<Rightarrow> world \<Rightarrow> readable_stream \<Rightarrow> (js_error + unit) \<times> world" where
  "email env w raw =
     (case read_all (decode env) raw [] of
        Inl e \<Rightarrow> (Inl e, w)
      | Inr body \<Rightarrow>
          (case PostalMime_parse env body of
             Inl e \<Rightarrow> (Inl e, w)
           | Inr parsedEmail \<Rightarrow> queue_send env w (payload (emailBody parsedEmail))))"

subsection \<open>The summarizer and the HTTP handler\<close>

definition prompt :: "row list \<Rightarrow> turn list" where
  "prompt emails =
     [\<lparr>role = ''system'', content = ''You are an AI that summarizes emails.''\<rparr>,
      \<lparr>role = ''system'', content = ''You will receive a list of emails - take the details of each email and summarize them.''\<rparr>,
      \<lparr>role = ''system'', content = ''Don't repeat the prompt back to me, just return the summary.''\<rparr>,
      \<lparr>role = ''system'', content = ''Here are the emails for today: '' @ join_js [CHR 0x0A] (map message emails)\<rparr>,
      \<lparr>role = ''user'', content = ''Summarize my emails from today.''\<rparr>]"

definition generateSummary :: "env \<Rightarrow> world \<Rightarrow> (js_error + string) \<times> world" where
  "generateSummary env w =
     (case db_select_all env w of
        (Inl e, w1) \<Rightarrow> (Inl e, w1)
      | (Inr emails, w1) \<Rightarrow> ai_chat env w1 (prompt emails))"

text \<open>
  The three responses of \<open>fetch\<close>: \<open>new Response(JSON.stringify(emails))\<close>,
  \<open>new Response(err.message)\<close> and \<open>Response.json({ summary })\<close>.
\<close>

datatype response =
    Response_emails "row list"
  | Response_text string
  | Response_summary string

definition fetch :: "env \<Rightarrow> world \<Rightarrow> string \<Rightarrow> (js_error + response) \<times> world" where
  "fetch env w pathname =
     (if pathname = ''/'' then
        (let now = clock w;
             oneDayAgo = now - (24 * 60 * 60 * 1000)
         in case db_select_after env w oneDayAgo of
              (Inl err, w1) \<Rightarrow> (Inr (Response_text (error_message err)), w1)
            | (Inr emails, w1) \<Rightarrow> (Inr (Response_emails emails), w1))
      else
        (case generateSummary env w of
           (Inl e, w1) \<Rightarrow> (Inl e, w1)
         | (Inr summary, w1) \<Rightarrow> (Inr (Response_summary summary), w1)))"

subsection \<open>The queue consumer\<close>

text \<open>
  The body of the \<open>for\<close> loop of lines 108-131 on one \<open>message.body\<close>. \<open>Inr ()\<close> is the end
  of the iteration, by \<open>continue\<close> or by reaching the end of the body.
\<close>

definition process :: "env \<Rightarrow> world \<Rightarrow> json_text \<Rightarrow> (js_error + unit) \<times> world" where
  "process env w message_body =
     (case JSON_parse message_body of
        Inl e \<Rightarrow> (Inl e, w)
      | Inr v \<Rightarrow>
     (case destructure v of
        Inl e \<Rightarrow> (Inl e, w)
      | Inr (body, type) \<Rightarrow>
          if type \<noteq> Some (JStr ''email'') then
            (Inr (), console_log (Unknown_message_type type) w)
          else
     (case db_insert env w body of
        (Inl e, w1) \<Rightarrow> (Inl e, w1)
      | (Inr r, w1) \<Rightarrow>
          if \<not> success r then
            (Inr (), console_log (Failed_to_insert_message body) w1)
          else
     (case results r of
        [] \<Rightarrow> (Inl (TypeError ''Cannot read properties of undefined (reading 'id')''), w1)
      | i # _ \<Rightarrow>
     (case ai_embed env w1 [body] of
        (Inl e, w2) \<Rightarrow> (Inl e, w2)
      | (Inr data, w2) \<Rightarrow>
          index_upsert env w2 (String_js i)
            (case data of [] \<Rightarrow> None | values # _ \<Rightarrow> Some values))))))"

fun queue :: "env \<Rightarrow> world \<Rightarrow> json_text list \<Rightarrow> (js_error + unit) \<times> world" where
  "queue env w [] = (Inr (), w)"
| "queue env w (m # ms) =
     (case process env w m of
        (Inl e, w1) \<Rightarrow> (Inl e, w1)
      | (Inr u, w1) \<Rightarrow> queue env w1 ms)"

subsection \<open>Vocabulary of the statements\<close>

text \<open>The message \<open>{ type: "email", body: b }\<close> as it is on the queue.\<close>

definition QueuedMessage :: "string \<Rightarrow> json_text" where
  "QueuedMessage b = Encodes (JObj [(''type'', JStr ''email''), (''body'', JStr b)])"

text \<open>
  The \<open>body\<close> and \<open>type\<close> the consumer reads from a message, when the message parses and
  destructures.
\<close>

definition body_and_type :: "json_text \<Rightarrow> (js_value \<times> js_value) option" where
  "body_and_type m =
     (case JSON_parse m of
        Inl e \<Rightarrow> None
      | Inr v \<Rightarrow> (case destructure v of Inl e \<Rightarrow> None | Inr bt \<Rightarrow> Some bt))"

text \<open>The state after the store has taken the insert of \<open>v\<close> and kept the text \<open>txt\<close>.\<close>

definition inserted :: "js_value \<Rightarrow> string option \<Rightarrow> world \<Rightarrow> world" where
  "inserted v txt w =
     (called (DbInsert v) w)\<lparr>DB := DB w @
        [\<lparr>row_id = next_id (DB w), message = txt, created_at = clock w\<rparr>]\<rparr>"

text \<open>\<open>data[0]\<close>\<close>

definition first :: "vector list \<Rightarrow> vector option" where
  "first data = (case data of [] \<Rightarrow> None | values # _ \<Rightarrow> Some values)"

text \<open>The state after the embedding call for \<open>v\<close>.\<close>

definition embedded :: "js_value \<Rightarrow> world \<Rightarrow> world" where
  "embedded v w = called (AiEmbed ''@cf/baai/bge-base-en-v1.5'' [v]) w"

text \<open>The calls made between the state \<open>w\<close> and the later state \<open>w'\<close>.\<close>

definition new_calls :: "world \<Rightarrow> world \<Rightarrow> call list" where
  "new_calls w w' = drop (length (calls w)) (calls w')"

text \<open>Every identifier in the vector index is the key, as a string, of a stored row.\<close>

definition indexed_are_stored :: "world \<Rightarrow> bool" where
  "indexed_are_stored w =
     (\<forall>e \<in> set (VECTORIZE_INDEX w). \<exists>r \<in> set (DB w). fst e = String_js (row_id r))"

subsection \<open>Concrete services and states\<close>

text \<open>
  An empty store, index and queue, and services that all work: the parser hands the whole
  text back as the plain-text body, the store keeps a string body and rejects the binding
  of anything else, the embedding model returns one vector for each text.
\<close>

definition empty_world :: world where
  "empty_world = \<lparr>DB = [], VECTORIZE_INDEX = [], QUEUE = [], console = [], calls = [],
     clock = 1000000000\<rparr>"

definition working_env :: env where
  "working_env = \<lparr>
     decode = map (\<lambda>b. char_of (unat b)),
     PostalMime_parse = (\<lambda>s. Inr \<lparr>text' = Some s, html = None\<rparr>),
     QUEUE_send = (\<lambda>w s. None),
     DB_insert = (\<lambda>w v. case v of
         Some (JStr s) \<Rightarrow> InsertStores (Some s)
       | _ \<Rightarrow> InsertThrows (TypeError ''D1_TYPE_ERROR'')),
     DB_select = (\<lambda>w c. None),
     AI_embed = (\<lambda>w xs. Inr (map (\<lambda>x. [0, 1]) xs)),
     AI_chat = (\<lambda>w ms. Inr ''There are no emails to summarize.''),
     INDEX_upsert = (\<lambda>w i v. None)\<rparr>"

text \<open>The parser finds no body at all, or an empty plain-text body beside an html body.\<close>

definition no_body_env :: env where
  "no_body_env = working_env\<lparr>PostalMime_parse := (\<lambda>s. Inr \<lparr>text' = None, html = None\<rparr>)\<rparr>"

definition html_only_env :: env where
  "html_only_env =
     working_env\<lparr>PostalMime_parse := (\<lambda>s. Inr \<lparr>text' = Some [], html = Some ''<p>Hi</p>''\<rparr>)\<rparr>"

text \<open>
  The inference service is down; the vector index is down; the queue is full; the first
  insert reports failure.
\<close>

definition no_inference_env :: env where
  "no_inference_env =
     working_env\<lparr>AI_embed := (\<lambda>w xs. Inl (ServiceError ''inference unavailable''))\<rparr>"

definition no_index_env :: env where
  "no_index_env =
     working_env\<lparr>INDEX_upsert := (\<lambda>w i v. Some (ServiceError ''index unavailable''))\<rparr>"

definition queue_full_env :: env where
  "queue_full_env = working_env\<lparr>QUEUE_send := (\<lambda>w s. Some (ServiceError ''queue full''))\<rparr>"

definition first_insert_fails_env :: env where
  "first_insert_fails_env =
     working_env\<lparr>DB_insert := (\<lambda>w v.
        if calls w = [] then InsertFails else DB_insert working_env w v)\<rparr>"

text \<open>A store with one row of two days ago and one of an hour ago.\<close>

definition two_rows_world :: world where
  "two_rows_world = empty_world\<lparr>DB :=
     [\<lparr>row_id = 1, message = Some ''old'', created_at = 1000000000 - 2 * 86400000\<rparr>,
      \<lparr>row_id = 2, message = Some ''new'', created_at = 1000000000 - 3600000\<rparr>]\<rparr>"

section \<open>Properties\<close>

subsection \<open>The services, call by call\<close>

lemma payload_Some: "payload (Some b) = QueuedMessage b"
  by (simp add: payload_def QueuedMessage_def JSON_stringify_def List.map_filter_simps)

lemma payload_None: "payload None = Encodes (JObj [(''type'', JStr ''email'')])"
  by (simp add: payload_def JSON_stringify_def List.map_filter_simps)

lemma queue_send_calls: "calls (snd (queue_send env w s)) = calls w @ [QueueSend s]"
  by (simp add: queue_send_def called_def Let_def split: option.splits)

lemma queue_send_accepted:
  "QUEUE_send env w s = None \<Longrightarrow>
     fst (queue_send env w s) = Inr () \<and> QUEUE (snd (queue_send env w s)) = QUEUE w @ [s]"
  by (simp add: queue_send_def called_def Let_def)

lemma queue_send_refused:
  "QUEUE_send env w s = Some e \<Longrightarrow> queue_send env w s = (Inl e, called (QueueSend s) w)"
  by (simp add: queue_send_def Let_def)

lemma db_insert_throws:
  "DB_insert env w v = InsertThrows e \<Longrightarrow> db_insert env w v = (Inl e, called (DbInsert v) w)"
  by (simp add: db_insert_def Let_def)

lemma db_insert_fails:
  "DB_insert env w v = InsertFails \<Longrightarrow>
     db_insert env w v = (Inr \<lparr>success = False, results = []\<rparr>, called (DbInsert v) w)"
  by (simp add: db_insert_def Let_def)

lemma db_insert_stores:
  "DB_insert env w v = InsertStores t \<Longrightarrow>
     db_insert env w v = (Inr \<lparr>success = True, results = [next_id (DB w)]\<rparr>, inserted v t w)"
  by (simp add: db_insert_def Let_def inserted_def called_def)

lemma index_upsert_refused:
  "INDEX_upsert env w i v = Some e \<Longrightarrow>
     index_upsert env w i v = (Inl e, called (IndexUpsert i v) w)"
  by (simp add: index_upsert_def Let_def)

lemma index_upsert_done:
  "INDEX_upsert env w i v = None \<Longrightarrow>
     index_upsert env w i v =
       (Inr (), (called (IndexUpsert i v) w)\<lparr>VECTORIZE_INDEX := VECTORIZE_INDEX w @ [(i, v)]\<rparr>)"
  by (simp add: index_upsert_def Let_def called_def)

subsection \<open>The email handler\<close>

lemma email_sends:
  assumes "read_all (decode env) raw [] = Inr s" and "PostalMime_parse env s = Inr p"
  shows "email env w raw = queue_send env w (payload (emailBody p))"
  using assms by (simp add: email_def)

lemma emailBody_text: "text' p = Some t \<Longrightarrow> t \<noteq> [] \<Longrightarrow> emailBody p = Some t"
  by (simp add: emailBody_def or_js_def truthy_def)

lemma emailBody_html: "\<not> truthy (text' p) \<Longrightarrow> emailBody p = html p"
  by (simp add: emailBody_def or_js_def)

lemma read_Hi: "read_all (decode working_env) (Chunk [72, 105] Done) [] = Inr ''Hi''"
proof -
  have "decode working_env [72, 105] = ''Hi''"
    by code_simp
  then show ?thesis by simp
qed

text \<open>
  C5. When the parser finds a non-empty plain-text body \<open>t\<close>, the handler sends the message
  \<open>{ type: "email", body: t }\<close> to the queue, whatever the html body is; when the queue
  takes it, the handler completes and the message is the last one on the queue.
\<close>

theorem plain_text_body_is_enqueued:
  assumes "read_all (decode env) raw [] = Inr s"
    and "PostalMime_parse env s = Inr p"
    and "text' p = Some t" and "t \<noteq> []"
  shows "new_calls w (snd (email env w raw)) = [QueueSend (QueuedMessage t)]
    \<and> (QUEUE_send env w (QueuedMessage t) = None \<longrightarrow>
         fst (email env w raw) = Inr ()
         \<and> QUEUE (snd (email env w raw)) = QUEUE w @ [QueuedMessage t])"
proof -
  have "email env w raw = queue_send env w (QueuedMessage t)"
    using assms by (simp add: email_sends emailBody_text payload_Some)
  then show ?thesis
    by (simp add: queue_send_calls queue_send_accepted new_calls_def)
qed

theorem plain_text_body_is_enqueued_witness:
  "new_calls empty_world (snd (email working_env empty_world (Chunk [72, 105] Done)))
     = [QueueSend (QueuedMessage ''Hi'')]
   \<and> fst (email working_env empty_world (Chunk [72, 105] Done)) = Inr ()
   \<and> QUEUE (snd (email working_env empty_world (Chunk [72, 105] Done))) = [QueuedMessage ''Hi'']"
proof -
  have p: "PostalMime_parse working_env ''Hi'' = Inr \<lparr>text' = Some ''Hi'', html = None\<rparr>"
    by (simp add: working_env_def)
  have q: "QUEUE_send working_env empty_world (QueuedMessage ''Hi'') = None"
    by (simp add: working_env_def)
  show ?thesis
    using plain_text_body_is_enqueued [OF read_Hi p, of "''Hi''" empty_world] q
    by (simp add: empty_world_def)
qed

lemma read_Hi_html: "read_all (decode html_only_env) (Chunk [72, 105] Done) [] = Inr ''Hi''"
  using read_Hi by (simp add: html_only_env_def)

lemma read_Hi_no_body: "read_all (decode no_body_env) (Chunk [72, 105] Done) [] = Inr ''Hi''"
  using read_Hi by (simp add: no_body_env_def)

lemma read_Hi_full: "read_all (decode queue_full_env) (Chunk [72, 105] Done) [] = Inr ''Hi''"
  using read_Hi by (simp add: queue_full_env_def)

text \<open>
  C10. When the parser finds the empty string as plain-text body and an html body \<open>h\<close>, the
  handler sends \<open>{ type: "email", body: h }\<close>: the choice is made by \<open>||\<close>, for which the
  empty string counts as absent.
\<close>

theorem empty_plain_text_gives_html_body:
  assumes "read_all (decode env) raw [] = Inr s"
    and "PostalMime_parse env s = Inr p"
    and "text' p = Some []" and "html p = Some h"
  shows "new_calls w (snd (email env w raw)) = [QueueSend (QueuedMessage h)]
    \<and> (QUEUE_send env w (QueuedMessage h) = None \<longrightarrow>
         fst (email env w raw) = Inr ()
         \<and> QUEUE (snd (email env w raw)) = QUEUE w @ [QueuedMessage h])"
proof -
  have "\<not> truthy (text' p)"
    using assms(3) by (simp add: truthy_def)
  then have "email env w raw = queue_send env w (QueuedMessage h)"
    using assms by (simp add: email_sends emailBody_html payload_Some)
  then show ?thesis
    by (simp add: queue_send_calls queue_send_accepted new_calls_def)
qed

theorem empty_plain_text_gives_html_body_witness:
  "new_calls empty_world (snd (email html_only_env empty_world (Chunk [72, 105] Done)))
     = [QueueSend (QueuedMessage ''<p>Hi</p>'')]
   \<and> fst (email html_only_env empty_world (Chunk [72, 105] Done)) = Inr ()
   \<and> QUEUE (snd (email html_only_env empty_world (Chunk [72, 105] Done)))
     = [QueuedMessage ''<p>Hi</p>'']"
proof -
  have p: "PostalMime_parse html_only_env ''Hi'' = Inr \<lparr>text' = Some [], html = Some ''<p>Hi</p>''\<rparr>"
    by (simp add: html_only_env_def)
  have q: "QUEUE_send html_only_env empty_world (QueuedMessage ''<p>Hi</p>'') = None"
    by (simp add: html_only_env_def working_env_def)
  show ?thesis
    using empty_plain_text_gives_html_body [OF read_Hi_html p, of "''<p>Hi</p>''" empty_world] q
    by (simp add: empty_world_def)
qed

text \<open>
  C2, as the code has it. The body sent to the queue is the plain-text body when there is
  one and it is not empty; when there is none, or it is empty, the body sent is the html
  body if there is one.
\<close>

theorem enqueued_body_is_text_or_else_html:
  assumes "read_all (decode env) raw [] = Inr s"
    and "PostalMime_parse env s = Inr p"
  shows "(text' p = Some t \<and> t \<noteq> [] \<longrightarrow>
            new_calls w (snd (email env w raw)) = [QueueSend (QueuedMessage t)])
    \<and> ((text' p = None \<or> text' p = Some []) \<and> html p = Some h \<longrightarrow>
            new_calls w (snd (email env w raw)) = [QueueSend (QueuedMessage h)])"
proof -
  have e: "new_calls w (snd (email env w raw)) = [QueueSend (payload (emailBody p))]"
    using assms by (simp add: email_sends queue_send_calls new_calls_def)
  have "text' p = None \<or> text' p = Some [] \<Longrightarrow> \<not> truthy (text' p)"
    by (auto simp: truthy_def)
  then show ?thesis
    using e by (auto simp: emailBody_text emailBody_html payload_Some)
qed

theorem enqueued_body_is_text_or_else_html_witness:
  "new_calls empty_world (snd (email working_env empty_world (Chunk [72, 105] Done)))
     = [QueueSend (QueuedMessage ''Hi'')]
   \<and> new_calls empty_world (snd (email html_only_env empty_world (Chunk [72, 105] Done)))
     = [QueueSend (QueuedMessage ''<p>Hi</p>'')]"
proof -
  have p1: "PostalMime_parse working_env ''Hi'' = Inr \<lparr>text' = Some ''Hi'', html = None\<rparr>"
    by (simp add: working_env_def)
  have p2: "PostalMime_parse html_only_env ''Hi'' = Inr \<lparr>text' = Some [], html = Some ''<p>Hi</p>''\<rparr>"
    by (simp add: html_only_env_def)
  show ?thesis
    using enqueued_body_is_text_or_else_html [OF read_Hi p1, of "''Hi''" empty_world]
      enqueued_body_is_text_or_else_html [OF read_Hi_html p2, where h = "''<p>Hi</p>''" and w = empty_world]
    by simp
qed

text \<open>
  C2, as the spec has it, fails on two inputs. An email with neither body is enqueued as
  \<open>{ type: "email" }\<close>, with no \<open>body\<close> at all, where the spec has the empty string; and an
  email whose plain-text body is present and empty is enqueued with its html body, where
  the spec has the plain-text body.
\<close>

theorem no_empty_string_fallback:
  "email no_body_env empty_world (Chunk [72, 105] Done) =
     (Inr (), empty_world\<lparr>
        QUEUE := [Encodes (JObj [(''type'', JStr ''email'')])],
        calls := [QueueSend (Encodes (JObj [(''type'', JStr ''email'')]))]\<rparr>)
   \<and> QUEUE (snd (email no_body_env empty_world (Chunk [72, 105] Done))) \<noteq> [QueuedMessage []]
   \<and> QUEUE (snd (email html_only_env empty_world (Chunk [72, 105] Done)))
       = [QueuedMessage ''<p>Hi</p>'']
   \<and> QUEUE (snd (email html_only_env empty_world (Chunk [72, 105] Done))) \<noteq> [QueuedMessage []]"
proof -
  have p1: "PostalMime_parse no_body_env ''Hi'' = Inr \<lparr>text' = None, html = None\<rparr>"
    by (simp add: no_body_env_def)
  have b1: "payload (emailBody \<lparr>text' = None, html = None\<rparr>)
      = Encodes (JObj [(''type'', JStr ''email'')])"
    by (simp add: emailBody_def or_js_def truthy_def payload_None)
  have 1: "email no_body_env empty_world (Chunk [72, 105] Done) =
     (Inr (), empty_world\<lparr>
        QUEUE := [Encodes (JObj [(''type'', JStr ''email'')])],
        calls := [QueueSend (Encodes (JObj [(''type'', JStr ''email'')]))]\<rparr>)"
    unfolding email_sends [OF read_Hi_no_body p1] b1
    by (simp add: queue_send_def called_def no_body_env_def working_env_def empty_world_def)
  have p2: "PostalMime_parse html_only_env ''Hi''
      = Inr \<lparr>text' = Some [], html = Some ''<p>Hi</p>''\<rparr>"
    by (simp add: html_only_env_def)
  have b2: "payload (emailBody \<lparr>text' = Some [], html = Some ''<p>Hi</p>''\<rparr>)
      = QueuedMessage ''<p>Hi</p>''"
    by (simp add: emailBody_def or_js_def truthy_def payload_Some)
  have 2: "email html_only_env empty_world (Chunk [72, 105] Done) =
     (Inr (), empty_world\<lparr>
        QUEUE := [QueuedMessage ''<p>Hi</p>''],
        calls := [QueueSend (QueuedMessage ''<p>Hi</p>'')]\<rparr>)"
    unfolding email_sends [OF read_Hi_html p2] b2
    by (simp add: queue_send_def called_def html_only_env_def working_env_def empty_world_def)
  show ?thesis
    unfolding 1 2 by (simp add: QueuedMessage_def empty_world_def)
qed

text \<open>
  C9. When the email was read and parsed and the queue refuses the message, the handler
  ends with the queue's exception. And whenever the handler completes, the queue has
  accepted a message of the handler and holds it as its last element: no email is dropped
  by a handler that completes.
\<close>

theorem enqueue_failure_fails_handler:
  "(read_all (decode env) raw [] = Inr s \<and> PostalMime_parse env s = Inr p
      \<and> QUEUE_send env w (payload (emailBody p)) = Some e \<longrightarrow>
        email env w raw = (Inl e, called (QueueSend (payload (emailBody p))) w))
   \<and> (fst (email env w raw) = Inr () \<longrightarrow>
        (\<exists>m. QUEUE_send env w m = None \<and> QUEUE (snd (email env w raw)) = QUEUE w @ [m]))"
proof (intro conjI impI)
  assume "read_all (decode env) raw [] = Inr s \<and> PostalMime_parse env s = Inr p
      \<and> QUEUE_send env w (payload (emailBody p)) = Some e"
  then show "email env w raw = (Inl e, called (QueueSend (payload (emailBody p))) w)"
    by (simp add: email_sends queue_send_refused)
next
  assume ok: "fst (email env w raw) = Inr ()"
  then obtain s where s: "read_all (decode env) raw [] = Inr s"
    by (cases "read_all (decode env) raw []") (simp_all add: email_def)
  with ok obtain p where p: "PostalMime_parse env s = Inr p"
    by (cases "PostalMime_parse env s") (simp_all add: email_def)
  let ?m = "payload (emailBody p)"
  have e: "email env w raw = queue_send env w ?m"
    using s p by (rule email_sends)
  have "QUEUE_send env w ?m = None"
  proof (cases "QUEUE_send env w ?m")
    case (Some err)
    then show ?thesis using ok e by (simp add: queue_send_refused)
  qed simp
  then show "\<exists>m. QUEUE_send env w m = None \<and> QUEUE (snd (email env w raw)) = QUEUE w @ [m]"
    using e queue_send_accepted by auto
qed

theorem enqueue_failure_fails_handler_witness:
  "email queue_full_env empty_world (Chunk [72, 105] Done) =
     (Inl (ServiceError ''queue full''), called (QueueSend (QueuedMessage ''Hi'')) empty_world)
   \<and> fst (email working_env empty_world (Chunk [72, 105] Done)) = Inr ()
   \<and> (\<exists>m. QUEUE (snd (email working_env empty_world (Chunk [72, 105] Done))) = QUEUE empty_world @ [m])"
proof -
  have p: "PostalMime_parse queue_full_env ''Hi'' = Inr \<lparr>text' = Some ''Hi'', html = None\<rparr>"
    by (simp add: queue_full_env_def working_env_def)
  have b: "payload (emailBody \<lparr>text' = Some ''Hi'', html = None\<rparr>) = QueuedMessage ''Hi''"
    by (simp add: emailBody_text payload_Some)
  have q: "QUEUE_send queue_full_env empty_world (QueuedMessage ''Hi'') = Some (ServiceError ''queue full'')"
    by (simp add: queue_full_env_def)
  have p': "PostalMime_parse working_env ''Hi'' = Inr \<lparr>text' = Some ''Hi'', html = None\<rparr>"
    by (simp add: working_env_def)
  have ok: "fst (email working_env empty_world (Chunk [72, 105] Done)) = Inr ()"
    unfolding email_sends [OF read_Hi p'] b
    by (simp add: queue_send_def working_env_def Let_def)
  have A: "email queue_full_env empty_world (Chunk [72, 105] Done) =
     (Inl (ServiceError ''queue full''), called (QueueSend (QueuedMessage ''Hi'')) empty_world)"
    using enqueue_failure_fails_handler [of queue_full_env "Chunk [72, 105] Done" "''Hi''"
        "\<lparr>text' = Some ''Hi'', html = None\<rparr>" empty_world "ServiceError ''queue full''"]
      read_Hi_full p b q
    by simp
  have B: "\<exists>m. QUEUE (snd (email working_env empty_world (Chunk [72, 105] Done)))
      = QUEUE empty_world @ [m]"
    using enqueue_failure_fails_handler [of working_env "Chunk [72, 105] Done" "''Hi''"
        "\<lparr>text' = Some ''Hi'', html = None\<rparr>" empty_world "ServiceError ''queue full''"]
      ok
    by blast
  show ?thesis
    using A B ok by blast
qed

subsection \<open>The queue consumer\<close>

lemma process_unknown_type:
  "body_and_type m = Some (b, t) \<Longrightarrow> t \<noteq> Some (JStr ''email'') \<Longrightarrow>
     process env w m = (Inr (), console_log (Unknown_message_type t) w)"
  by (auto simp: body_and_type_def process_def split: sum.splits)

lemma process_email:
  assumes "body_and_type m = Some (b, Some (JStr ''email''))"
  shows "process env w m =
     (case DB_insert env w b of
        InsertThrows e \<Rightarrow> (Inl e, called (DbInsert b) w)
      | InsertFails \<Rightarrow> (Inr (), console_log (Failed_to_insert_message b) (called (DbInsert b) w))
      | InsertStores t \<Rightarrow>
          (case AI_embed env (inserted b t w) [b] of
             Inl e \<Rightarrow> (Inl e, embedded b (inserted b t w))
           | Inr data \<Rightarrow>
               index_upsert env (embedded b (inserted b t w)) (String_js (next_id (DB w)))
                 (first data)))"
proof -
  obtain v where v: "JSON_parse m = Inr v" "destructure v = Inr (b, Some (JStr ''email''))"
    using assms by (auto simp: body_and_type_def split: sum.splits)
  show ?thesis
  proof (cases "DB_insert env w b")
    case (InsertThrows e)
    then show ?thesis using v by (simp add: process_def db_insert_throws)
  next
    case InsertFails
    then show ?thesis using v by (simp add: process_def db_insert_fails)
  next
    case (InsertStores t)
    then show ?thesis using v
      by (simp add: process_def db_insert_stores ai_embed_def embedded_def first_def
          split: sum.splits)
  qed
qed

lemma queue_append:
  "queue env w (pre @ post) =
     (case queue env w pre of (Inl e, w1) \<Rightarrow> (Inl e, w1) | (Inr u, w1) \<Rightarrow> queue env w1 post)"
  by (induction pre arbitrary: w) (auto split: prod.splits sum.splits)

lemma queue_after:
  "queue env w0 pre = (Inr (), w) \<Longrightarrow> queue env w0 (pre @ m # ms) =
     (case process env w m of (Inl e, w1) \<Rightarrow> (Inl e, w1) | (Inr u, w1) \<Rightarrow> queue env w1 ms)"
  by (simp add: queue_append)

lemma body_and_type_QueuedMessage: "body_and_type (QueuedMessage b) = Some (Some (JStr b), Some (JStr ''email''))"
  by (simp add: body_and_type_def QueuedMessage_def JSON_parse_def)

text \<open>
  C6. A message of a batch that is reached (the messages before it were handled without
  an exception) and whose \<open>type\<close> is not the string "email" (another value, or none at all)
  is logged and skipped: the store, the vector index and the list of calls to the services
  are as before, and the consumer goes on with the messages after it.
\<close>

theorem unknown_type_is_skipped:
  assumes "queue env w0 pre = (Inr (), w)"
    and "body_and_type m = Some (b, t)"
    and "t \<noteq> Some (JStr ''email'')"
  shows "process env w m = (Inr (), console_log (Unknown_message_type t) w)
    \<and> DB (console_log (Unknown_message_type t) w) = DB w
    \<and> VECTORIZE_INDEX (console_log (Unknown_message_type t) w) = VECTORIZE_INDEX w
    \<and> calls (console_log (Unknown_message_type t) w) = calls w
    \<and> queue env w0 (pre @ m # ms) = queue env (console_log (Unknown_message_type t) w) ms"
  using assms by (simp add: queue_after process_unknown_type console_log_def)

lemma first_alone:
  "queue working_env empty_world [QueuedMessage ''first''] =
     (Inr (), empty_world\<lparr>
        DB := [\<lparr>row_id = 1, message = Some ''first'', created_at = 1000000000\<rparr>],
        VECTORIZE_INDEX := [(''1'', Some [0, 1])],
        calls := [DbInsert (Some (JStr ''first'')),
                  AiEmbed ''@cf/baai/bge-base-en-v1.5'' [Some (JStr ''first'')],
                  IndexUpsert ''1'' (Some [0, 1])]\<rparr>)"
  by (simp add: working_env_def empty_world_def QueuedMessage_def process_def JSON_parse_def
      db_insert_def ai_embed_def index_upsert_def called_def next_id_def Let_def
      String_js_def digits.simps)

theorem unknown_type_is_skipped_witness:
  "fst (queue working_env empty_world
          ([QueuedMessage ''first''] @ Encodes (JObj [(''type'', JStr ''sms'')])
             # [QueuedMessage ''second''])) = Inr ()
   \<and> map message (DB (snd (queue working_env empty_world
          ([QueuedMessage ''first''] @ Encodes (JObj [(''type'', JStr ''sms'')])
             # [QueuedMessage ''second''])))) = [Some ''first'', Some ''second'']
   \<and> console (snd (queue working_env empty_world
          ([QueuedMessage ''first''] @ Encodes (JObj [(''type'', JStr ''sms'')])
             # [QueuedMessage ''second'']))) = [Unknown_message_type (Some (JStr ''sms''))]"
proof -
  have f: "body_and_type (Encodes (JObj [(''type'', JStr ''sms'')])) = Some (None, Some (JStr ''sms''))"
    by (simp add: body_and_type_def JSON_parse_def)
  have t: "Some (JStr ''sms'') \<noteq> Some (JStr ''email'')"
    by simp
  show ?thesis
    using unknown_type_is_skipped [OF first_alone f t, of "[QueuedMessage ''second'']"]
    by (simp add: working_env_def empty_world_def QueuedMessage_def console_log_def
        process_def JSON_parse_def db_insert_def ai_embed_def index_upsert_def called_def
        next_id_def Let_def String_js_def digits.simps)
qed

lemma body_and_type_no_body:
  "body_and_type (Encodes (JObj [(''type'', JStr ''email'')])) = Some (None, Some (JStr ''email''))"
  by (simp add: body_and_type_def JSON_parse_def)

text \<open>
  C1, as the code has it. The consumer has no handler for exceptions. For a reached
  message of type "email": when the insert reports \<open>success: false\<close> the message is logged
  and skipped and the consumer goes on with the rest of the batch; when the insert, the
  embedding call or the index upsert throws, the consumer ends with that exception, in
  the state reached so far (a row stored for the message stays), whatever messages follow.
\<close>

theorem only_reported_failures_are_skipped:
  assumes "queue env w0 pre = (Inr (), w)"
    and "body_and_type m = Some (b, Some (JStr ''email''))"
  shows "(DB_insert env w b = InsertFails \<longrightarrow>
            queue env w0 (pre @ m # ms) =
              queue env (console_log (Failed_to_insert_message b) (called (DbInsert b) w)) ms)
    \<and> (DB_insert env w b = InsertThrows e \<longrightarrow>
            queue env w0 (pre @ m # ms) = (Inl e, called (DbInsert b) w))
    \<and> (DB_insert env w b = InsertStores t \<and> AI_embed env (inserted b t w) [b] = Inl e \<longrightarrow>
            queue env w0 (pre @ m # ms) = (Inl e, embedded b (inserted b t w)))
    \<and> (DB_insert env w b = InsertStores t \<and> AI_embed env (inserted b t w) [b] = Inr data
          \<and> INDEX_upsert env (embedded b (inserted b t w)) (String_js (next_id (DB w)))
               (first data) = Some e \<longrightarrow>
            queue env w0 (pre @ m # ms) =
              (Inl e, called (IndexUpsert (String_js (next_id (DB w))) (first data))
                        (embedded b (inserted b t w))))"
  using assms
  by (simp add: queue_after process_email index_upsert_refused)

theorem only_reported_failures_are_skipped_witness:
  "queue first_insert_fails_env empty_world
       ([] @ QueuedMessage ''first'' # [QueuedMessage ''second'']) =
     queue first_insert_fails_env
       (console_log (Failed_to_insert_message (Some (JStr ''first'')))
          (called (DbInsert (Some (JStr ''first''))) empty_world)) [QueuedMessage ''second'']
   \<and> queue working_env empty_world
       ([] @ Encodes (JObj [(''type'', JStr ''email'')]) # [QueuedMessage ''second'']) =
     (Inl (TypeError ''D1_TYPE_ERROR''), called (DbInsert None) empty_world)
   \<and> queue no_inference_env empty_world
       ([] @ QueuedMessage ''first'' # [QueuedMessage ''second'']) =
     (Inl (ServiceError ''inference unavailable''),
      embedded (Some (JStr ''first''))
        (inserted (Some (JStr ''first'')) (Some ''first'') empty_world))
   \<and> queue no_index_env empty_world
       ([] @ QueuedMessage ''first'' # [QueuedMessage ''second'']) =
     (Inl (ServiceError ''index unavailable''),
      called (IndexUpsert ''1'' (Some [0, 1]))
        (embedded (Some (JStr ''first''))
           (inserted (Some (JStr ''first'')) (Some ''first'') empty_world)))"
proof -
  let ?b = "Some (JStr ''first'')"
  let ?w = "inserted ?b (Some ''first'') empty_world"
  have q: "queue env empty_world [] = (Inr (), empty_world)" for env
    by simp
  have 1: "DB_insert first_insert_fails_env empty_world ?b = InsertFails"
    by (simp add: first_insert_fails_env_def empty_world_def)
  have 2: "DB_insert working_env empty_world None = InsertThrows (TypeError ''D1_TYPE_ERROR'')"
    by (simp add: working_env_def)
  have 3: "DB_insert no_inference_env empty_world ?b = InsertStores (Some ''first'')
      \<and> AI_embed no_inference_env ?w [?b] = Inl (ServiceError ''inference unavailable'')"
    by (simp add: no_inference_env_def working_env_def)
  have n: "String_js (next_id (DB empty_world)) = ''1''"
    by (simp add: next_id_def empty_world_def String_js_def digits.simps)
  have 4: "DB_insert no_index_env empty_world ?b = InsertStores (Some ''first'')
      \<and> AI_embed no_index_env ?w [?b] = Inr [[0, 1]]
      \<and> INDEX_upsert no_index_env (embedded ?b ?w) (String_js (next_id (DB empty_world)))
            (first [[0, 1]]) = Some (ServiceError ''index unavailable'')"
    by (simp add: no_index_env_def working_env_def)
  have f: "first [[0, 1]] = Some [0, 1]"
    by (simp add: first_def)
  show ?thesis
    using
      only_reported_failures_are_skipped [OF q body_and_type_QueuedMessage,
        where b1 = "''first''" and env = first_insert_fails_env
          and ms = "[QueuedMessage ''second'']"]
      only_reported_failures_are_skipped [OF q body_and_type_no_body,
        where env = working_env and e = "TypeError ''D1_TYPE_ERROR''"
          and ms = "[QueuedMessage ''second'']"]
      only_reported_failures_are_skipped [OF q body_and_type_QueuedMessage,
        where b1 = "''first''" and env = no_inference_env and t = "Some ''first''"
          and e = "ServiceError ''inference unavailable''" and ms = "[QueuedMessage ''second'']"]
      only_reported_failures_are_skipped [OF q body_and_type_QueuedMessage,
        where b1 = "''first''" and env = no_index_env and t = "Some ''first''"
          and data = "[[0, 1]]"
          and e = "ServiceError ''index unavailable''" and ms = "[QueuedMessage ''second'']"]
      1 2 3 4
    by (simp add: n f)
qed

text \<open>
  C1, as the spec has it, fails: with the inference service down, a batch of two emails
  ends with the exception of the first embedding call. Nothing is logged, and the second
  message is neither stored nor embedded.
\<close>

theorem embedding_failure_aborts_batch:
  "queue no_inference_env empty_world [QueuedMessage ''first'', QueuedMessage ''second''] =
     (Inl (ServiceError ''inference unavailable''),
      empty_world\<lparr>
        DB := [\<lparr>row_id = 1, message = Some ''first'', created_at = 1000000000\<rparr>],
        calls := [DbInsert (Some (JStr ''first'')),
                  AiEmbed ''@cf/baai/bge-base-en-v1.5'' [Some (JStr ''first'')]]\<rparr>)"
  by (simp add: no_inference_env_def working_env_def empty_world_def QueuedMessage_def
      process_def JSON_parse_def db_insert_def ai_embed_def called_def next_id_def Let_def)

lemma calls_simps:
  "calls (called c w) = calls w @ [c]"
  "calls (console_log l w) = calls w"
  "calls (inserted v t w) = calls w @ [DbInsert v]"
  "calls (embedded v w) = calls w @ [AiEmbed ''@cf/baai/bge-base-en-v1.5'' [v]]"
  by (simp_all add: called_def console_log_def inserted_def embedded_def)

lemma DB_simps:
  "DB (called c w) = DB w"
  "DB (console_log l w) = DB w"
  "DB (inserted v t w) = DB w @ [\<lparr>row_id = next_id (DB w), message = t, created_at = clock w\<rparr>]"
  "DB (embedded v w) = DB w"
  by (simp_all add: called_def console_log_def inserted_def embedded_def)

lemma INDEX_simps:
  "VECTORIZE_INDEX (called c w) = VECTORIZE_INDEX w"
  "VECTORIZE_INDEX (console_log l w) = VECTORIZE_INDEX w"
  "VECTORIZE_INDEX (inserted v t w) = VECTORIZE_INDEX w"
  "VECTORIZE_INDEX (embedded v w) = VECTORIZE_INDEX w"
  by (simp_all add: called_def console_log_def inserted_def embedded_def)

lemma index_upsert_effect:
  "calls (snd (index_upsert env w i v)) = calls w @ [IndexUpsert i v]"
  "DB (snd (index_upsert env w i v)) = DB w"
  "VECTORIZE_INDEX (snd (index_upsert env w i v)) = VECTORIZE_INDEX w
     \<or> VECTORIZE_INDEX (snd (index_upsert env w i v)) = VECTORIZE_INDEX w @ [(i, v)]"
  by (simp_all add: index_upsert_def called_def Let_def split: option.splits)

lemma process_unparsed: "body_and_type m = None \<Longrightarrow> \<exists>e. process env w m = (Inl e, w)"
  by (auto simp: body_and_type_def process_def split: sum.splits)

text \<open>What one iteration does to the store, the index and the list of calls.\<close>

lemma process_effect:
  "(DB (snd (process env w m)) = DB w
      \<and> VECTORIZE_INDEX (snd (process env w m)) = VECTORIZE_INDEX w
      \<and> (\<forall>i v. IndexUpsert i v \<notin> set (new_calls w (snd (process env w m)))))
   \<or> (\<exists>b t. body_and_type m = Some (b, Some (JStr ''email''))
        \<and> DB_insert env w b = InsertStores t
        \<and> DB (snd (process env w m)) =
            DB w @ [\<lparr>row_id = next_id (DB w), message = t, created_at = clock w\<rparr>]
        \<and> (VECTORIZE_INDEX (snd (process env w m)) = VECTORIZE_INDEX w
             \<and> (\<forall>i v. IndexUpsert i v \<notin> set (new_calls w (snd (process env w m))))
            \<or> (\<exists>data. (VECTORIZE_INDEX (snd (process env w m)) = VECTORIZE_INDEX w
                    \<or> VECTORIZE_INDEX (snd (process env w m)) =
                      VECTORIZE_INDEX w @ [(String_js (next_id (DB w)), first data)])
                  \<and> new_calls w (snd (process env w m)) =
                      [DbInsert b, AiEmbed ''@cf/baai/bge-base-en-v1.5'' [b],
                       IndexUpsert (String_js (next_id (DB w))) (first data)])))"
proof (cases "body_and_type m")
  case None
  then show ?thesis
    using process_unparsed [of m env w] by (auto simp: new_calls_def)
next
  case (Some bt)
  obtain b ty where bt: "bt = (b, ty)" by (cases bt)
  show ?thesis
  proof (cases "ty = Some (JStr ''email'')")
    case False
    then show ?thesis
      using Some bt by (simp add: process_unknown_type new_calls_def calls_simps DB_simps INDEX_simps)
  next
    case True
    then have m: "body_and_type m = Some (b, Some (JStr ''email''))"
      using Some bt by simp
    show ?thesis
    proof (cases "DB_insert env w b")
      case (InsertThrows e)
      then show ?thesis
        by (simp add: process_email [OF m] new_calls_def calls_simps DB_simps INDEX_simps)
    next
      case InsertFails
      then show ?thesis
        by (simp add: process_email [OF m] new_calls_def calls_simps DB_simps INDEX_simps)
    next
      case (InsertStores t)
      show ?thesis
      proof (cases "AI_embed env (inserted b t w) [b]")
        case (Inl e)
        then show ?thesis
          using InsertStores m
          by (simp add: process_email [OF m] new_calls_def calls_simps DB_simps INDEX_simps)
      next
        case (Inr data)
        have p: "process env w m =
            index_upsert env (embedded b (inserted b t w)) (String_js (next_id (DB w))) (first data)"
          using InsertStores Inr by (simp add: process_email [OF m])
        show ?thesis
          using InsertStores m
            index_upsert_effect(3) [of env "embedded b (inserted b t w)"
              "String_js (next_id (DB w))" "first data"]
          unfolding p
          by (auto simp add: new_calls_def calls_simps DB_simps INDEX_simps index_upsert_effect(1,2))
      qed
    qed
  qed
qed


lemma indexed_are_stored_same:
  "indexed_are_stored w \<Longrightarrow> DB w' = DB w \<Longrightarrow> VECTORIZE_INDEX w' = VECTORIZE_INDEX w \<Longrightarrow>
     indexed_are_stored w'"
  by (simp add: indexed_are_stored_def)

lemma indexed_are_stored_row:
  "indexed_are_stored w \<Longrightarrow> DB w' = DB w @ [r] \<Longrightarrow> VECTORIZE_INDEX w' = VECTORIZE_INDEX w \<Longrightarrow>
     indexed_are_stored w'"
  by (fastforce simp add: indexed_are_stored_def)

lemma indexed_are_stored_row_indexed:
  "indexed_are_stored w \<Longrightarrow> DB w' = DB w @ [r] \<Longrightarrow>
     VECTORIZE_INDEX w' = VECTORIZE_INDEX w @ [(String_js (row_id r), v)] \<Longrightarrow>
     indexed_are_stored w'"
  by (fastforce simp add: indexed_are_stored_def)

lemma process_keeps_indexed_stored:
  assumes "indexed_are_stored w"
  shows "indexed_are_stored (snd (process env w m))"
proof -
  let ?w' = "snd (process env w m)"
  let ?r = "\<lambda>t. \<lparr>row_id = next_id (DB w), message = t, created_at = clock w\<rparr>"
  consider "DB ?w' = DB w" "VECTORIZE_INDEX ?w' = VECTORIZE_INDEX w"
    | t where "DB ?w' = DB w @ [?r t]" "VECTORIZE_INDEX ?w' = VECTORIZE_INDEX w"
    | t v where "DB ?w' = DB w @ [?r t]"
        "VECTORIZE_INDEX ?w' = VECTORIZE_INDEX w @ [(String_js (next_id (DB w)), v)]"
    using process_effect [of env w m] by blast
  then show ?thesis
  proof cases
    case 1
    then show ?thesis using assms by (rule indexed_are_stored_same [rotated])
  next
    case 2
    then show ?thesis using assms by (rule indexed_are_stored_row [rotated])
  next
    case 3
    show ?thesis
      using assms 3(1) by (rule indexed_are_stored_row_indexed) (simp add: 3(2))
  qed
qed

lemma queue_keeps_indexed_stored:
  "indexed_are_stored w \<Longrightarrow> indexed_are_stored (snd (queue env w ms))"
proof (induction ms arbitrary: w)
  case Nil
  then show ?case by simp
next
  case (Cons m ms)
  obtain r w1 where p: "process env w m = (r, w1)"
    by (cases "process env w m")
  have w1: "indexed_are_stored w1"
    using process_keeps_indexed_stored [OF Cons.prems, of env m] p by simp
  show ?case
  proof (cases r)
    case (Inl e)
    then show ?thesis using p w1 by simp
  next
    case (Inr u)
    then show ?thesis using p Cons.IH [OF w1] by simp
  qed
qed

lemma first_alone_process:
  "process working_env empty_world (QueuedMessage ''first'') =
     (Inr (), empty_world\<lparr>
        DB := [\<lparr>row_id = 1, message = Some ''first'', created_at = 1000000000\<rparr>],
        VECTORIZE_INDEX := [(''1'', Some [0, 1])],
        calls := [DbInsert (Some (JStr ''first'')),
                  AiEmbed ''@cf/baai/bge-base-en-v1.5'' [Some (JStr ''first'')],
                  IndexUpsert ''1'' (Some [0, 1])]\<rparr>)"
  by (simp add: working_env_def empty_world_def QueuedMessage_def process_def JSON_parse_def
      db_insert_def ai_embed_def index_upsert_def called_def next_id_def Let_def
      String_js_def digits.simps)

text \<open>
  C4. In the handling of one message, an upsert is called only after the insert for that
  message has returned \<open>success: true\<close> with the key of the row it stored, the identifier
  upserted is that key as a string, and the calls of the iteration are the insert, the
  embedding and the upsert, in this order. Hence a batch keeps the invariant that every
  identifier in the vector index is the key of a stored row.
\<close>

theorem upsert_only_for_stored_row:
  "(IndexUpsert sid vals \<in> set (new_calls w (snd (process env w m))) \<longrightarrow>
      (\<exists>b t. body_and_type m = Some (b, Some (JStr ''email''))
         \<and> db_insert env w b =
             (Inr \<lparr>success = True, results = [next_id (DB w)]\<rparr>, inserted b t w)
         \<and> sid = String_js (next_id (DB w))
         \<and> new_calls w (snd (process env w m)) =
             [DbInsert b, AiEmbed ''@cf/baai/bge-base-en-v1.5'' [b], IndexUpsert sid vals]
         \<and> \<lparr>row_id = next_id (DB w), message = t, created_at = clock w\<rparr>
             \<in> set (DB (snd (process env w m)))))
   \<and> (indexed_are_stored w \<longrightarrow> indexed_are_stored (snd (queue env w ms)))"
proof (intro conjI impI)
  assume u: "IndexUpsert sid vals \<in> set (new_calls w (snd (process env w m)))"
  from process_effect [of env w m] u
  obtain b t data where m: "body_and_type m = Some (b, Some (JStr ''email''))"
    and i: "DB_insert env w b = InsertStores t"
    and d: "DB (snd (process env w m)) =
            DB w @ [\<lparr>row_id = next_id (DB w), message = t, created_at = clock w\<rparr>]"
    and n: "new_calls w (snd (process env w m)) =
              [DbInsert b, AiEmbed ''@cf/baai/bge-base-en-v1.5'' [b],
               IndexUpsert (String_js (next_id (DB w))) (first data)]"
    by blast
  from u n have "sid = String_js (next_id (DB w))" and "vals = first data"
    by simp_all
  then show "\<exists>b t. body_and_type m = Some (b, Some (JStr ''email''))
         \<and> db_insert env w b =
             (Inr \<lparr>success = True, results = [next_id (DB w)]\<rparr>, inserted b t w)
         \<and> sid = String_js (next_id (DB w))
         \<and> new_calls w (snd (process env w m)) =
             [DbInsert b, AiEmbed ''@cf/baai/bge-base-en-v1.5'' [b], IndexUpsert sid vals]
         \<and> \<lparr>row_id = next_id (DB w), message = t, created_at = clock w\<rparr>
             \<in> set (DB (snd (process env w m)))"
    using m db_insert_stores [OF i] d n by auto
next
  assume "indexed_are_stored w"
  then show "indexed_are_stored (snd (queue env w ms))"
    by (rule queue_keeps_indexed_stored)
qed

theorem upsert_only_for_stored_row_witness:
  "IndexUpsert ''1'' (Some [0, 1])
      \<in> set (new_calls empty_world (snd (process working_env empty_world (QueuedMessage ''first''))))
   \<and> (\<exists>t. db_insert working_env empty_world (Some (JStr ''first'')) =
             (Inr \<lparr>success = True, results = [1]\<rparr>, inserted (Some (JStr ''first'')) t empty_world))
   \<and> ''1'' = String_js (next_id (DB empty_world))
   \<and> indexed_are_stored empty_world
   \<and> indexed_are_stored (snd (queue working_env empty_world [QueuedMessage ''first'']))"
proof -
  have u: "IndexUpsert ''1'' (Some [0, 1])
      \<in> set (new_calls empty_world (snd (process working_env empty_world (QueuedMessage ''first''))))"
    unfolding first_alone_process by (simp add: new_calls_def empty_world_def)
  have i: "indexed_are_stored empty_world"
    by (simp add: indexed_are_stored_def empty_world_def)
  have n: "next_id (DB empty_world) = 1"
    by (simp add: next_id_def empty_world_def)
  show ?thesis
    using upsert_only_for_stored_row [of "''1''" "Some [0, 1]" empty_world working_env
        "QueuedMessage ''first''" "[QueuedMessage ''first'']"] u i n
    by (auto simp: body_and_type_QueuedMessage)
qed

text \<open>
  C7. A batch of two email messages, where the insert for the first reports
  \<open>success: false\<close>, the insert for the second stores its row, and the embedding call and
  the upsert for the second succeed: the handler completes, the store has gained exactly
  one row (the only row, when the store was empty), and the calls made are the two
  inserts, then one embedding and one upsert, both for the second message, under the key
  of the new row. The first message is logged.
\<close>

theorem second_message_indexed_after_first_insert_fails:
  assumes "body_and_type m1 = Some (b1, Some (JStr ''email''))"
    and "body_and_type m2 = Some (b2, Some (JStr ''email''))"
    and "DB_insert env w b1 = InsertFails"
    and "w1 = console_log (Failed_to_insert_message b1) (called (DbInsert b1) w)"
    and "DB_insert env w1 b2 = InsertStores t"
    and "AI_embed env (inserted b2 t w1) [b2] = Inr data"
    and "INDEX_upsert env (embedded b2 (inserted b2 t w1)) (String_js (next_id (DB w)))
           (first data) = None"
  shows "fst (queue env w [m1, m2]) = Inr ()
    \<and> DB (snd (queue env w [m1, m2])) =
        DB w @ [\<lparr>row_id = next_id (DB w), message = t, created_at = clock w\<rparr>]
    \<and> new_calls w (snd (queue env w [m1, m2])) =
        [DbInsert b1, DbInsert b2, AiEmbed ''@cf/baai/bge-base-en-v1.5'' [b2],
         IndexUpsert (String_js (next_id (DB w))) (first data)]
    \<and> VECTORIZE_INDEX (snd (queue env w [m1, m2])) =
        VECTORIZE_INDEX w @ [(String_js (next_id (DB w)), first data)]
    \<and> console (snd (queue env w [m1, m2])) = console w @ [Failed_to_insert_message b1]"
proof -
  have 1: "process env w m1 = (Inr (), w1)"
    using assms(3,4) by (simp add: process_email [OF assms(1)])
  have d: "DB w1 = DB w"
    using assms(4) by (simp add: DB_simps)
  have 2: "process env w1 m2 =
      (Inr (), (called (IndexUpsert (String_js (next_id (DB w))) (first data))
                 (embedded b2 (inserted b2 t w1)))
               \<lparr>VECTORIZE_INDEX := VECTORIZE_INDEX (embedded b2 (inserted b2 t w1))
                   @ [(String_js (next_id (DB w)), first data)]\<rparr>)"
    using assms(5,6,7) by (simp add: process_email [OF assms(2)] d index_upsert_done)
  have q: "queue env w [m1, m2] =
      (Inr (), (called (IndexUpsert (String_js (next_id (DB w))) (first data))
                 (embedded b2 (inserted b2 t w1)))
               \<lparr>VECTORIZE_INDEX := VECTORIZE_INDEX (embedded b2 (inserted b2 t w1))
                   @ [(String_js (next_id (DB w)), first data)]\<rparr>)"
    by (simp add: 1 2)
  show ?thesis
    unfolding q
    by (simp add: assms(4) new_calls_def called_def console_log_def inserted_def embedded_def)
qed

theorem second_message_indexed_after_first_insert_fails_witness:
  "fst (queue first_insert_fails_env empty_world [QueuedMessage ''first'', QueuedMessage ''second'']) = Inr ()
   \<and> DB (snd (queue first_insert_fails_env empty_world
        [QueuedMessage ''first'', QueuedMessage ''second''])) =
       [\<lparr>row_id = 1, message = Some ''second'', created_at = 1000000000\<rparr>]
   \<and> new_calls empty_world (snd (queue first_insert_fails_env empty_world
        [QueuedMessage ''first'', QueuedMessage ''second''])) =
       [DbInsert (Some (JStr ''first'')), DbInsert (Some (JStr ''second'')),
        AiEmbed ''@cf/baai/bge-base-en-v1.5'' [Some (JStr ''second'')],
        IndexUpsert ''1'' (Some [0, 1])]
   \<and> VECTORIZE_INDEX (snd (queue first_insert_fails_env empty_world
        [QueuedMessage ''first'', QueuedMessage ''second''])) = [(''1'', Some [0, 1])]"
proof -
  let ?b1 = "Some (JStr ''first'')" and ?b2 = "Some (JStr ''second'')"
  let ?w1 = "console_log (Failed_to_insert_message ?b1) (called (DbInsert ?b1) empty_world)"
  have f: "DB_insert first_insert_fails_env empty_world ?b1 = InsertFails"
    by (simp add: first_insert_fails_env_def empty_world_def)
  have s: "DB_insert first_insert_fails_env ?w1 ?b2 = InsertStores (Some ''second'')"
    by (simp add: first_insert_fails_env_def working_env_def console_log_def called_def)
  have a: "AI_embed first_insert_fails_env (inserted ?b2 (Some ''second'') ?w1) [?b2] = Inr [[0, 1]]"
    by (simp add: first_insert_fails_env_def working_env_def)
  have u: "INDEX_upsert first_insert_fails_env (embedded ?b2 (inserted ?b2 (Some ''second'') ?w1))
      (String_js (next_id (DB empty_world))) (first [[0, 1]]) = None"
    by (simp add: first_insert_fails_env_def working_env_def)
  have n: "String_js (next_id (DB empty_world)) = ''1''"
    by (simp add: next_id_def empty_world_def String_js_def digits.simps)
  show ?thesis
    using second_message_indexed_after_first_insert_fails
      [OF body_and_type_QueuedMessage body_and_type_QueuedMessage f refl s a u]
    by (simp add: n first_def) (simp add: empty_world_def next_id_def)
qed

subsection \<open>The summarizer and the listing\<close>

text \<open>
  C3. When the two queries succeed, \<open>generateSummary\<close> builds its prompt from every row of
  the store, and the listing of \<open>GET /\<close> returns the rows created after the instant 24
  hours before now. With a row older than that in the store, the rows listed are a
  proper subset of the rows given to the summarizer.
\<close>

theorem summary_reads_all_listing_reads_last_day:
  assumes "DB_select env w DbSelectAll = None"
    and "DB_select env w (DbSelectAfter (clock w - 86400000)) = None"
    and "r \<in> set (DB w)" and "created_at r < clock w - 86400000"
  shows "new_calls w (snd (generateSummary env w)) =
           [DbSelectAll, AiChat ''@cf/meta/llama-2-7b-chat-int8'' (prompt (DB w))]
    \<and> content (prompt (DB w) ! 3) =
           ''Here are the emails for today: '' @ join_js [CHR 0x0A] (map message (DB w))
    \<and> fetch env w ''/'' =
           (Inr (Response_emails (filter (\<lambda>x. clock w - 86400000 < created_at x) (DB w))),
            called (DbSelectAfter (clock w - 86400000)) w)
    \<and> set (filter (\<lambda>x. clock w - 86400000 < created_at x) (DB w)) \<subset> set (DB w)"
proof (intro conjI)
  show "new_calls w (snd (generateSummary env w)) =
           [DbSelectAll, AiChat ''@cf/meta/llama-2-7b-chat-int8'' (prompt (DB w))]"
    using assms(1)
    by (simp add: generateSummary_def db_select_all_def ai_chat_def called_def new_calls_def)
  show "content (prompt (DB w) ! 3) =
           ''Here are the emails for today: '' @ join_js [CHR 0x0A] (map message (DB w))"
    by (simp add: prompt_def)
  show "fetch env w ''/'' =
           (Inr (Response_emails (filter (\<lambda>x. clock w - 86400000 < created_at x) (DB w))),
            called (DbSelectAfter (clock w - 86400000)) w)"
    using assms(2) by (simp add: fetch_def db_select_after_def Let_def)
  show "set (filter (\<lambda>x. clock w - 86400000 < created_at x) (DB w)) \<subset> set (DB w)"
  proof -
    have "r \<notin> set (filter (\<lambda>x. clock w - 86400000 < created_at x) (DB w))"
      using assms(4) by simp
    moreover have "set (filter (\<lambda>x. clock w - 86400000 < created_at x) (DB w)) \<subseteq> set (DB w)"
      by simp
    ultimately show ?thesis
      using assms(3) by blast
  qed
qed

theorem summary_reads_all_listing_reads_last_day_witness:
  "new_calls two_rows_world (snd (generateSummary working_env two_rows_world)) =
     [DbSelectAll, AiChat ''@cf/meta/llama-2-7b-chat-int8'' (prompt (DB two_rows_world))]
   \<and> content (prompt (DB two_rows_world) ! 3) = ''Here are the emails for today: old'' @ [CHR 0x0A] @ ''new''
   \<and> fst (fetch working_env two_rows_world ''/'') =
       Inr (Response_emails [\<lparr>row_id = 2, message = Some ''new'', created_at = 1000000000 - 3600000\<rparr>])"
proof -
  let ?old = "\<lparr>row_id = 1, message = Some ''old'', created_at = 1000000000 - 2 * 86400000\<rparr>"
  have 1: "DB_select working_env two_rows_world DbSelectAll = None"
    by (simp add: working_env_def)
  have 2: "DB_select working_env two_rows_world (DbSelectAfter (clock two_rows_world - 86400000)) = None"
    by (simp add: working_env_def)
  have 3: "?old \<in> set (DB two_rows_world)"
    by (simp add: two_rows_world_def empty_world_def)
  have 4: "created_at ?old < clock two_rows_world - 86400000"
    by (simp add: two_rows_world_def empty_world_def)
  show ?thesis
    using summary_reads_all_listing_reads_last_day [OF 1 2 3 4]
    by (simp add: two_rows_world_def empty_world_def)
qed

text \<open>
  C8. With no row in the store (and the query succeeding), \<open>generateSummary\<close> calls the chat
  model with the five turns, the fourth being the fixed text followed by nothing, and its
  result is the result of that call: the generated text whenever the model returns one.
\<close>

theorem summary_of_empty_store:
  assumes "DB w = []" and "DB_select env w DbSelectAll = None"
  shows "generateSummary env w =
           (AI_chat env (called DbSelectAll w) (prompt []),
            called (AiChat ''@cf/meta/llama-2-7b-chat-int8'' (prompt [])) (called DbSelectAll w))
    \<and> prompt [] =
         [\<lparr>role = ''system'', content = ''You are an AI that summarizes emails.''\<rparr>,
          \<lparr>role = ''system'', content = ''You will receive a list of emails - take the details of each email and summarize them.''\<rparr>,
          \<lparr>role = ''system'', content = ''Don't repeat the prompt back to me, just return the summary.''\<rparr>,
          \<lparr>role = ''system'', content = ''Here are the emails for today: ''\<rparr>,
          \<lparr>role = ''user'', content = ''Summarize my emails from today.''\<rparr>]
    \<and> (AI_chat env (called DbSelectAll w) (prompt []) = Inr s \<longrightarrow>
          fst (generateSummary env w) = Inr s)"
  using assms
  by (simp add: generateSummary_def db_select_all_def ai_chat_def prompt_def)

theorem summary_of_empty_store_witness:
  "fst (generateSummary working_env empty_world) = Inr ''There are no emails to summarize.''
   \<and> new_calls empty_world (snd (generateSummary working_env empty_world)) =
       [DbSelectAll, AiChat ''@cf/meta/llama-2-7b-chat-int8'' (prompt [])]
   \<and> length (prompt []) = 5"
proof -
  have 1: "DB empty_world = []"
    by (simp add: empty_world_def)
  have 2: "DB_select working_env empty_world DbSelectAll = None"
    by (simp add: working_env_def)
  have 3: "AI_chat working_env (called DbSelectAll empty_world) (prompt [])
      = Inr ''There are no emails to summarize.''"
    by (simp add: working_env_def)
  show ?thesis
    using summary_of_empty_store [OF 1 2, of "''There are no emails to summarize.''"] 3
    by (simp add: new_calls_def called_def)
qed

end
